theory Spec2Isabelle
  imports
    Complex_Main
    "HOL-Library.AList"
    "HOL-Library.Char_ord"
    "HOL-Library.List_Lexorder"
    "HOL-Library.Multiset"
    "HOL-Library.Product_Lexorder"
begin

section \<open>Data model of the recommendation service\<close>

text \<open>
  The embedding follows \<^verbatim>\<open>app/services/recommendation_service.py\<close>,
  \<^verbatim>\<open>app/services/kafka_consumer.py\<close>, \<^verbatim>\<open>app/models/interaction.py\<close>,
  \<^verbatim>\<open>app/schemas/recommendation.py\<close> and \<^verbatim>\<open>app/api/recommendations.py\<close>.
  Python floats are idealised as rationals (every weight and every increment of the
  source is a small integer or a multiple of a tenth, so the idealisation only leaves
  out rounding). Identifiers are strings, limits are Python's unbounded integers.
\<close>

datatype interaction_type = VIEW | ADD_TO_CART | PURCHASE | REVIEW | WISHLIST

fun type_value :: "interaction_type \<Rightarrow> string" where
  "type_value VIEW = ''view''"
| "type_value ADD_TO_CART = ''add_to_cart''"
| "type_value PURCHASE = ''purchase''"
| "type_value REVIEW = ''review''"
| "type_value WISHLIST = ''wishlist''"

text \<open>\<^verbatim>\<open>UserInteraction\<close>; the unused fields \<^verbatim>\<open>score\<close> and \<^verbatim>\<open>metadata\<close> are left out.\<close>

record user_interaction =
  ui_user_id :: string
  ui_product_id :: string
  ui_interaction_type :: interaction_type
  ui_timestamp :: string

text \<open>The dictionary \<^verbatim>\<open>interaction_data\<close> that is written to the user's log as JSON.\<close>

record interaction_data =
  d_product_id :: string
  d_type :: string
  d_score :: rat
  d_timestamp :: string

text \<open>\<^verbatim>\<open>RecommendedProduct\<close>; the optional display fields are never set by the service.\<close>

record recommended_product =
  product_id :: string
  score :: rat
  reason :: string

record user_profile =
  up_user_id :: string
  preferred_categories :: "string list"
  preferred_brands :: "string list"
  price_range_min :: rat
  price_range_max :: rat
  interaction_count :: int
  last_active :: "string option"

text \<open>
  \<^verbatim>\<open>UserProfile(user_id=..., interaction_count=..., last_active=...)\<close>: the fields that
  the caller does not pass take the defaults of the class.
\<close>

definition UserProfile :: "string \<Rightarrow> int \<Rightarrow> string option \<Rightarrow> user_profile" where
  "UserProfile uid cnt la =
     \<lparr>up_user_id = uid, preferred_categories = [], preferred_brands = [],
      price_range_min = 0, price_range_max = 10000,
      interaction_count = cnt, last_active = la\<rparr>"

text \<open>\<^verbatim>\<open>self.interaction_weights\<close>, read with \<^verbatim>\<open>.get(type, 1.0)\<close>; every type has an entry.\<close>

fun interaction_weights :: "interaction_type \<Rightarrow> rat" where
  "interaction_weights VIEW = 1"
| "interaction_weights ADD_TO_CART = 3"
| "interaction_weights WISHLIST = 2"
| "interaction_weights PURCHASE = 5"
| "interaction_weights REVIEW = 4"

text \<open>Settings (\<^verbatim>\<open>app/config/settings.py\<close>), at their defaults.\<close>

definition cache_ttl :: nat where
  "cache_ttl = 3600"

definition min_interactions_for_cf :: nat where
  "min_interactions_for_cf = 5"

section \<open>The Redis store\<close>

text \<open>
  The store is typed by key family: a key holds the kind of value its writers store
  there. A key that is absent reads as the empty list, sorted set, set or hash, as in
  Redis. Sorted sets and hashes are association lists, sets are duplicate-free lists
  whose order is the order in which the client iterates them. Cached strings hold the
  JSON of a recommendation list; the JSON round trip is taken as the identity.
  \<open>faults\<close> is the failure schedule of the connection: each store call consumes
  its head, and the call raises when the head is \<open>True\<close>; an empty schedule means
  that every call succeeds. Expiry is recorded in \<open>r_ttl\<close>, time does not pass.
\<close>

record store =
  r_lists :: "string \<Rightarrow> interaction_data list"
  r_zsets :: "string \<Rightarrow> (string \<times> rat) list"
  r_sets :: "string \<Rightarrow> string list"
  r_hashes :: "string \<Rightarrow> (string \<times> string) list"
  r_strings :: "string \<Rightarrow> recommended_product list option"
  r_ttl :: "string \<Rightarrow> nat option"
  faults :: "bool list"

definition empty_store :: store where
  "empty_store =
     \<lparr>r_lists = (\<lambda>_. []), r_zsets = (\<lambda>_. []), r_sets = (\<lambda>_. []),
      r_hashes = (\<lambda>_. []), r_strings = (\<lambda>_. None), r_ttl = (\<lambda>_. None), faults = []\<rparr>"

datatype error = RedisError | ValueError

type_synonym 'a io = "store \<Rightarrow> (error + 'a) \<times> store"

definition io_return :: "'a \<Rightarrow> 'a io" where
  "io_return a s = (Inr a, s)"

definition io_raise :: "error \<Rightarrow> 'a io" where
  "io_raise e s = (Inl e, s)"

definition io_bind :: "'a io \<Rightarrow> ('a \<Rightarrow> 'b io) \<Rightarrow> 'b io" where
  "io_bind m f s = (case m s of (Inl e, s') \<Rightarrow> (Inl e, s') | (Inr a, s') \<Rightarrow> f a s')"

definition io_seq :: "unit io \<Rightarrow> 'b io \<Rightarrow> 'b io" where
  "io_seq m n = io_bind m (\<lambda>_. n)"

text \<open>One call to the store: it raises when the failure schedule says so.\<close>

definition redis_call :: "(store \<Rightarrow> (error + 'a) \<times> store) \<Rightarrow> 'a io" where
  "redis_call f s =
     (case faults s of
        [] \<Rightarrow> f s
      | b # bs \<Rightarrow> if b then (Inl RedisError, s\<lparr>faults := bs\<rparr>) else f (s\<lparr>faults := bs\<rparr>))"

text \<open>
  Index ranges of \<^verbatim>\<open>LRANGE\<close>, \<^verbatim>\<open>LTRIM\<close> and \<^verbatim>\<open>ZREVRANGE\<close>: both ends are
  inclusive, a negative index counts from the end.
\<close>

definition redis_range :: "int \<Rightarrow> int \<Rightarrow> 'a list \<Rightarrow> 'a list" where
  "redis_range start stop xs =
     (let n = int (length xs);
          st = (if start < 0 then n + start else start);
          en = (if stop < 0 then n + stop else stop);
          st' = (if st < 0 then 0 else st)
      in if st' > en \<or> st' \<ge> n then []
         else take (nat (min en (n - 1) - st' + 1)) (drop (nat st') xs))"

text \<open>Python's slice \<^verbatim>\<open>xs[:k]\<close>.\<close>

definition py_take :: "int \<Rightarrow> 'a list \<Rightarrow> 'a list" where
  "py_take k xs = (if k \<ge> 0 then take (nat k) xs else take (length xs - nat (- k)) xs)"

text \<open>
  \<^verbatim>\<open>sorted(..., key=lambda x: x.score, reverse=True)\<close>: stable, descending.
\<close>

definition sorted_desc :: "('a \<Rightarrow> rat) \<Rightarrow> 'a list \<Rightarrow> 'a list" where
  "sorted_desc key xs = sort_key (\<lambda>x. - key x) xs"

text \<open>Members of a sorted set from the highest to the lowest score; equal scores
  are ordered by the member, descending.\<close>

definition zset_desc :: "(string \<times> rat) list \<Rightarrow> (string \<times> rat) list" where
  "zset_desc z = rev (sort_key (\<lambda>(m, sc). (sc, m)) z)"

definition zset_incr :: "rat \<Rightarrow> string \<Rightarrow> (string \<times> rat) list \<Rightarrow> (string \<times> rat) list" where
  "zset_incr incr m z =
     (case map_of z m of
        None \<Rightarrow> AList.update m incr z
      | Some x \<Rightarrow> AList.update m (x + incr) z)"

definition redis_lpush :: "string \<Rightarrow> interaction_data \<Rightarrow> unit io" where
  "redis_lpush k v =
     redis_call (\<lambda>s. (Inr (), s\<lparr>r_lists := (r_lists s)(k := v # r_lists s k)\<rparr>))"

definition redis_ltrim :: "string \<Rightarrow> int \<Rightarrow> int \<Rightarrow> unit io" where
  "redis_ltrim k start stop =
     redis_call (\<lambda>s. (Inr (), s\<lparr>r_lists := (r_lists s)(k := redis_range start stop (r_lists s k))\<rparr>))"

definition redis_lrange :: "string \<Rightarrow> int \<Rightarrow> int \<Rightarrow> interaction_data list io" where
  "redis_lrange k start stop =
     redis_call (\<lambda>s. (Inr (redis_range start stop (r_lists s k)), s))"

definition redis_expire :: "string \<Rightarrow> nat \<Rightarrow> unit io" where
  "redis_expire k n = redis_call (\<lambda>s. (Inr (), s\<lparr>r_ttl := (r_ttl s)(k \<mapsto> n)\<rparr>))"

definition redis_zincrby :: "string \<Rightarrow> rat \<Rightarrow> string \<Rightarrow> unit io" where
  "redis_zincrby k incr m =
     redis_call (\<lambda>s. (Inr (), s\<lparr>r_zsets := (r_zsets s)(k := zset_incr incr m (r_zsets s k))\<rparr>))"

definition redis_zrevrange :: "string \<Rightarrow> int \<Rightarrow> int \<Rightarrow> (string \<times> rat) list io" where
  "redis_zrevrange k start stop =
     redis_call (\<lambda>s. (Inr (redis_range start stop (zset_desc (r_zsets s k))), s))"

definition redis_get :: "string \<Rightarrow> recommended_product list option io" where
  "redis_get k = redis_call (\<lambda>s. (Inr (r_strings s k), s))"

definition redis_setex :: "string \<Rightarrow> nat \<Rightarrow> recommended_product list \<Rightarrow> unit io" where
  "redis_setex k n v =
     redis_call (\<lambda>s. (Inr (), s\<lparr>r_strings := (r_strings s)(k \<mapsto> v), r_ttl := (r_ttl s)(k \<mapsto> n)\<rparr>))"

definition redis_hgetall :: "string \<Rightarrow> (string \<times> string) list io" where
  "redis_hgetall k = redis_call (\<lambda>s. (Inr (r_hashes s k), s))"

definition redis_hset :: "string \<Rightarrow> string \<Rightarrow> string \<Rightarrow> unit io" where
  "redis_hset k f v =
     redis_call (\<lambda>s. (Inr (), s\<lparr>r_hashes := (r_hashes s)(k := AList.update f v (r_hashes s k))\<rparr>))"

definition redis_smembers :: "string \<Rightarrow> string list io" where
  "redis_smembers k = redis_call (\<lambda>s. (Inr (r_sets s k), s))"

definition redis_sadd :: "string \<Rightarrow> string \<Rightarrow> unit io" where
  "redis_sadd k m =
     redis_call (\<lambda>s. (Inr (), s\<lparr>r_sets := (r_sets s)(k := List.insert m (r_sets s k))\<rparr>))"

text \<open>Decimal integers, as \<^verbatim>\<open>HINCRBY\<close> reads and writes them.\<close>

definition digits :: "(char \<times> nat) list" where
  "digits =
     [(CHR ''0'', 0), (CHR ''1'', 1), (CHR ''2'', 2), (CHR ''3'', 3), (CHR ''4'', 4),
      (CHR ''5'', 5), (CHR ''6'', 6), (CHR ''7'', 7), (CHR ''8'', 8), (CHR ''9'', 9)]"

definition digit_of_char :: "char \<Rightarrow> nat option" where
  "digit_of_char c = map_of digits c"

definition char_of_digit :: "nat \<Rightarrow> char" where
  "char_of_digit d = fst (digits ! d)"

fun nat_of_digits :: "nat \<Rightarrow> string \<Rightarrow> nat option" where
  "nat_of_digits acc [] = Some acc"
| "nat_of_digits acc (c # cs) =
     (case digit_of_char c of None \<Rightarrow> None | Some d \<Rightarrow> nat_of_digits (10 * acc + d) cs)"

definition int_of_string :: "string \<Rightarrow> int option" where
  "int_of_string str =
     (case str of
        [] \<Rightarrow> None
      | c # cs \<Rightarrow>
          if c = CHR ''-'' then (if cs = [] then None else map_option (\<lambda>n. - int n) (nat_of_digits 0 cs))
          else map_option int (nat_of_digits 0 str))"

fun string_of_nat :: "nat \<Rightarrow> string" where
  "string_of_nat n =
     (if n < 10 then [char_of_digit n] else string_of_nat (n div 10) @ [char_of_digit (n mod 10)])"

declare string_of_nat.simps [simp del]

definition string_of_int :: "int \<Rightarrow> string" where
  "string_of_int i = (if i < 0 then CHR ''-'' # string_of_nat (nat (- i)) else string_of_nat (nat i))"

text \<open>\<^verbatim>\<open>HINCRBY\<close> answers with an error when the field does not hold an integer.\<close>

definition redis_hincrby :: "string \<Rightarrow> string \<Rightarrow> int \<Rightarrow> unit io" where
  "redis_hincrby k f n =
     redis_call (\<lambda>s.
       case map_of (r_hashes s k) f of
         None \<Rightarrow> (Inr (), s\<lparr>r_hashes := (r_hashes s)(k := AList.update f (string_of_int n) (r_hashes s k))\<rparr>)
       | Some v \<Rightarrow>
           (case int_of_string v of
              None \<Rightarrow> (Inl RedisError, s)
            | Some x \<Rightarrow>
                (Inr (), s\<lparr>r_hashes := (r_hashes s)(k := AList.update f (string_of_int (x + n)) (r_hashes s k))\<rparr>)))"

section \<open>Recording an interaction\<close>

definition get_user_interactions :: "string \<Rightarrow> interaction_data list io" where
  "get_user_interactions user_id =
     (let interaction_key = ''interactions:'' @ user_id
      in redis_lrange interaction_key 0 99)"

definition get_purchased_products :: "string \<Rightarrow> string set io" where
  "get_purchased_products user_id =
     (let purchased_key = ''purchased:'' @ user_id
      in io_bind (redis_smembers purchased_key) (\<lambda>products. io_return (set products)))"

text \<open>The loop of \<^verbatim>\<open>_update_co_occurrence\<close> over \<^verbatim>\<open>recent_products\<close>.\<close>

fun co_occurrence_loop :: "string \<Rightarrow> string list \<Rightarrow> unit io" where
  "co_occurrence_loop product [] = io_return ()"
| "co_occurrence_loop product (other_product # rest) =
     (let co_key1 = ''co_occurrence:'' @ product;
          co_key2 = ''co_occurrence:'' @ other_product
      in io_seq (redis_zincrby co_key1 1 other_product)
        (io_seq (redis_zincrby co_key2 1 product)
        (io_seq (redis_expire co_key1 (86400 * 7))
        (io_seq (redis_expire co_key2 (86400 * 7))
        (co_occurrence_loop product rest)))))"

definition update_co_occurrence :: "string \<Rightarrow> string \<Rightarrow> unit io" where
  "update_co_occurrence user_id product =
     io_bind (get_user_interactions user_id) (\<lambda>interactions.
       let recent_products =
             map d_product_id (filter (\<lambda>i. d_product_id i \<noteq> product) (py_take 20 interactions))
       in co_occurrence_loop product recent_products)"

text \<open>\<open>now\<close> is the text of \<^verbatim>\<open>datetime.utcnow().isoformat()\<close> at the call.\<close>

definition update_user_profile :: "string \<Rightarrow> user_interaction \<Rightarrow> unit io" where
  "update_user_profile now interaction =
     (let profile_key = ''user_profile:'' @ ui_user_id interaction
      in io_seq (redis_hincrby profile_key ''interaction_count'' 1)
        (io_seq (redis_hset profile_key ''last_active'' now)
        (io_seq (if ui_interaction_type interaction = PURCHASE
                 then (let purchased_key = ''purchased:'' @ ui_user_id interaction
                       in io_seq (redis_sadd purchased_key (ui_product_id interaction))
                                 (redis_expire purchased_key (86400 * 90)))
                 else io_return ())
        (redis_expire profile_key (86400 * 30)))))"

text \<open>The body of the \<^verbatim>\<open>try\<close> block of \<^verbatim>\<open>track_interaction\<close>.\<close>

definition track_interaction_body :: "string \<Rightarrow> user_interaction \<Rightarrow> unit io" where
  "track_interaction_body now interaction =
     (let interaction_key = ''interactions:'' @ ui_user_id interaction;
          interaction_data =
            \<lparr>d_product_id = ui_product_id interaction,
             d_type = type_value (ui_interaction_type interaction),
             d_score = interaction_weights (ui_interaction_type interaction),
             d_timestamp = ui_timestamp interaction\<rparr>;
          popularity_key = ''product:popularity''
      in io_seq (redis_lpush interaction_key interaction_data)
        (io_seq (redis_ltrim interaction_key 0 999)
        (io_seq (redis_expire interaction_key (86400 * 30))
        (io_seq (redis_zincrby popularity_key (d_score interaction_data) (ui_product_id interaction))
        (io_seq (update_co_occurrence (ui_user_id interaction) (ui_product_id interaction))
        (update_user_profile now interaction))))))"

text \<open>
  \<^verbatim>\<open>track_interaction\<close>: \<open>True\<close> when the body ran to its end, \<open>False\<close> when
  anything in it raised. What was written before the failure stays written.
\<close>

definition track_interaction :: "string \<Rightarrow> user_interaction \<Rightarrow> store \<Rightarrow> bool \<times> store" where
  "track_interaction now interaction s =
     (case track_interaction_body now interaction s of
        (Inr _, s') \<Rightarrow> (True, s')
      | (Inl e, s') \<Rightarrow> (False, s'))"

section \<open>Recommendation strategies\<close>

text \<open>
  A Python \<^verbatim>\<open>dict\<close> is an association list in insertion order: \<open>map_of\<close> reads
  it, \<open>AList.update\<close> assigns to a key (in place when the key is present, at the end
  otherwise), \<open>map snd\<close> lists its values. \<open>dict_add\<close> is \<^verbatim>\<open>d[k] += x\<close> on a
  \<^verbatim>\<open>defaultdict(float)\<close>.
\<close>

definition dict_add :: "string \<Rightarrow> rat \<Rightarrow> (string \<times> rat) list \<Rightarrow> (string \<times> rat) list" where
  "dict_add k x d = AList.update k ((case map_of d k of None \<Rightarrow> 0 | Some v \<Rightarrow> v) + x) d"

text \<open>A call of a method that catches its own exceptions.\<close>

definition io_lift :: "(store \<Rightarrow> 'a \<times> store) \<Rightarrow> 'a io" where
  "io_lift f s = (case f s of (a, s') \<Rightarrow> (Inr a, s'))"

subsection \<open>Trending\<close>

definition get_trending_products_body :: "int \<Rightarrow> recommended_product list io" where
  "get_trending_products_body limit =
     (let cache_key = ''recommendations:trending''
      in io_bind (redis_get cache_key) (\<lambda>cached.
           case cached of
             Some recommendations \<Rightarrow> io_return (py_take limit recommendations)
           | None \<Rightarrow>
               (let popularity_key = ''product:popularity''
                in io_bind (redis_zrevrange popularity_key 0 (limit - 1)) (\<lambda>trending.
                     let recommendations =
                           map (\<lambda>(pid, sc). \<lparr>product_id = pid, score = sc, reason = ''Trending now''\<rparr>) trending
                     in io_seq (redis_setex cache_key 300 recommendations)
                               (io_return recommendations)))))"

definition get_trending_products :: "int \<Rightarrow> store \<Rightarrow> recommended_product list \<times> store" where
  "get_trending_products limit s =
     (case get_trending_products_body limit s of
        (Inr recommendations, s') \<Rightarrow> (recommendations, s')
      | (Inl e, s') \<Rightarrow> ([], s'))"

subsection \<open>Similar products\<close>

definition add_co_purchase ::
  "string \<times> rat \<Rightarrow> (string \<times> recommended_product) list \<Rightarrow> (string \<times> recommended_product) list" where
  "add_co_purchase = (\<lambda>(similar_id, sc) recommendations.
     AList.update similar_id
       \<lparr>product_id = similar_id, score = sc, reason = ''Frequently bought together''\<rparr>
       recommendations)"

definition add_category_product ::
  "string \<Rightarrow> string \<Rightarrow> (string \<times> recommended_product) list \<Rightarrow> (string \<times> recommended_product) list" where
  "add_category_product product pid recommendations =
     (if pid \<noteq> product \<and> pid \<notin> set (map fst recommendations)
      then AList.update pid \<lparr>product_id = pid, score = 1 / 2, reason = ''Same category''\<rparr> recommendations
      else recommendations)"

definition get_similar_products_body :: "string \<Rightarrow> int \<Rightarrow> recommended_product list io" where
  "get_similar_products_body product limit =
     (let cache_key = ''recommendations:similar:'' @ product
      in io_bind (redis_get cache_key) (\<lambda>cached.
           case cached of
             Some recommendations \<Rightarrow> io_return (py_take limit recommendations)
           | None \<Rightarrow>
               (let co_purchase_key = ''co_occurrence:'' @ product
                in io_bind (redis_zrevrange co_purchase_key 0 (limit - 1)) (\<lambda>co_purchases.
                   let recommendations = fold add_co_purchase co_purchases []
                   in io_bind (redis_hgetall (''product:'' @ product)) (\<lambda>product_data.
                      io_bind
                        (if product_data \<noteq> [] then
                           (let category_id =
                                  (case map_of product_data ''category_id'' of None \<Rightarrow> [] | Some c \<Rightarrow> c)
                            in if category_id \<noteq> [] then
                                 io_bind (redis_smembers (''category:'' @ category_id @ '':products''))
                                   (\<lambda>category_products.
                                      io_return (fold (add_category_product product)
                                                   (py_take limit category_products) recommendations))
                               else io_return recommendations)
                         else io_return recommendations)
                        (\<lambda>recommendations.
                           let sorted_recs = py_take limit (sorted_desc score (map snd recommendations))
                           in io_seq (redis_setex cache_key cache_ttl sorted_recs)
                                     (io_return sorted_recs)))))))"

definition get_similar_products :: "string \<Rightarrow> int \<Rightarrow> store \<Rightarrow> recommended_product list \<times> store" where
  "get_similar_products product limit s =
     (case get_similar_products_body product limit s of
        (Inr recommendations, s') \<Rightarrow> (recommendations, s')
      | (Inl e, s') \<Rightarrow> ([], s'))"

subsection \<open>Recently viewed\<close>



subsection \<open>Frequently bought together\<close>

definition add_co_score :: "string set \<Rightarrow> string \<times> rat \<Rightarrow> (string \<times> rat) list \<Rightarrow> (string \<times> rat) list" where
  "add_co_score exclude = (\<lambda>(similar_id, sc) recommendations.
     if similar_id \<notin> exclude then dict_add similar_id sc recommendations else recommendations)"

fun fbt_loop :: "string set \<Rightarrow> int \<Rightarrow> string list \<Rightarrow> (string \<times> rat) list \<Rightarrow> (string \<times> rat) list io" where
  "fbt_loop exclude limit [] recommendations = io_return recommendations"
| "fbt_loop exclude limit (product # rest) recommendations =
     (let co_purchase_key = ''co_occurrence:'' @ product
      in io_bind (redis_zrevrange co_purchase_key 0 (limit * 2)) (\<lambda>co_purchases.
           fbt_loop exclude limit rest (fold (add_co_score exclude) co_purchases recommendations)))"

definition get_frequently_bought_together_body :: "string list \<Rightarrow> int \<Rightarrow> recommended_product list io" where
  "get_frequently_bought_together_body product_ids limit =
     (let exclude = set product_ids
      in io_bind (fbt_loop exclude limit product_ids []) (\<lambda>recommendations.
           let sorted_recs = py_take limit (sorted_desc snd recommendations)
           in io_return
                (map (\<lambda>(pid, sc). \<lparr>product_id = pid, score = sc, reason = ''Frequently bought together''\<rparr>)
                   sorted_recs)))"

definition get_frequently_bought_together ::
  "string list \<Rightarrow> int \<Rightarrow> store \<Rightarrow> recommended_product list \<times> store" where
  "get_frequently_bought_together product_ids limit s =
     (case get_frequently_bought_together_body product_ids limit s of
        (Inr recommendations, s') \<Rightarrow> (recommendations, s')
      | (Inl e, s') \<Rightarrow> ([], s'))"

subsection \<open>Collaborative filtering\<close>

definition add_weighted ::
  "(string \<times> rat) list \<Rightarrow> rat \<Rightarrow> string \<times> rat \<Rightarrow> (string \<times> rat) list \<Rightarrow> (string \<times> rat) list" where
  "add_weighted user_products weight = (\<lambda>(co_product, sc) recommendations.
     if co_product \<notin> set (map fst user_products)
     then dict_add co_product (sc * weight) recommendations
     else recommendations)"

fun cf_loop ::
  "(string \<times> rat) list \<Rightarrow> (string \<times> rat) list \<Rightarrow> (string \<times> rat) list \<Rightarrow> (string \<times> rat) list io" where
  "cf_loop user_products [] recommendations = io_return recommendations"
| "cf_loop user_products ((product, weight) # rest) recommendations =
     (let co_key = ''co_occurrence:'' @ product
      in io_bind (redis_zrevrange co_key 0 20) (\<lambda>co_products.
           cf_loop user_products rest (fold (add_weighted user_products weight) co_products recommendations)))"

definition collaborative_filtering_body :: "string \<Rightarrow> int \<Rightarrow> recommended_product list io" where
  "collaborative_filtering_body user_id limit =
     io_bind (get_user_interactions user_id) (\<lambda>interactions.
       if length interactions < min_interactions_for_cf then io_return []
       else
         (let user_products = fold (\<lambda>i d. AList.update (d_product_id i) (d_score i) d) interactions []
          in io_bind (cf_loop user_products (take 10 user_products) []) (\<lambda>recommendations.
               let sorted_recs = py_take limit (sorted_desc snd recommendations)
               in io_return
                    (map (\<lambda>(pid, sc). \<lparr>product_id = pid, score = sc, reason = ''Customers like you also bought''\<rparr>)
                       sorted_recs))))"

definition collaborative_filtering :: "string \<Rightarrow> int \<Rightarrow> store \<Rightarrow> recommended_product list \<times> store" where
  "collaborative_filtering user_id limit s =
     (case collaborative_filtering_body user_id limit s of
        (Inr recommendations, s') \<Rightarrow> (recommendations, s')
      | (Inl e, s') \<Rightarrow> ([], s'))"

subsection \<open>User profile and category recommendations\<close>

text \<open>
  \<^verbatim>\<open>int(...)\<close> raises on a text that is not an integer; the validation of the text of
  \<^verbatim>\<open>last_active\<close> is not modelled.
\<close>

definition get_user_profile :: "string \<Rightarrow> user_profile option io" where
  "get_user_profile user_id =
     (let profile_key = ''user_profile:'' @ user_id
      in io_bind (redis_hgetall profile_key) (\<lambda>profile_data.
           if profile_data = [] then io_return None
           else
             (case (case map_of profile_data ''interaction_count'' of
                      None \<Rightarrow> Some 0
                    | Some v \<Rightarrow> int_of_string v) of
                None \<Rightarrow> io_raise ValueError
              | Some cnt \<Rightarrow>
                  io_return
                    (Some (UserProfile user_id cnt
                       (case map_of profile_data ''last_active'' of
                          None \<Rightarrow> None
                        | Some v \<Rightarrow> if v = [] then None else Some v))))))"

fun category_loop :: "int \<Rightarrow> string list \<Rightarrow> recommended_product list \<Rightarrow> recommended_product list io" where
  "category_loop limit [] recommendations = io_return recommendations"
| "category_loop limit (category_id # rest) recommendations =
     (let category_key = ''category:'' @ category_id @ '':popular''
      in io_bind (redis_zrevrange category_key 0 (limit - 1)) (\<lambda>products.
           category_loop limit rest
             (recommendations @
              map (\<lambda>(pid, sc). \<lparr>product_id = pid, score = sc, reason = ''Popular in category''\<rparr>) products)))"

definition get_category_recommendations ::
  "string list \<Rightarrow> int \<Rightarrow> store \<Rightarrow> recommended_product list \<times> store" where
  "get_category_recommendations categories limit s =
     (case io_bind (category_loop limit categories [])
             (\<lambda>recommendations. io_return (py_take limit recommendations)) s of
        (Inr recommendations, s') \<Rightarrow> (recommendations, s')
      | (Inl e, s') \<Rightarrow> ([], s'))"

subsection \<open>Personalized recommendations\<close>

text \<open>The three merges of \<^verbatim>\<open>get_personalized_recommendations\<close>, one recommendation at a time.\<close>

definition merge_content ::
  "string set \<Rightarrow> recommended_product \<Rightarrow> (string \<times> recommended_product) list
     \<Rightarrow> (string \<times> recommended_product) list" where
  "merge_content excluded_products rec recommendations =
     (if product_id rec \<notin> excluded_products then
        (case map_of recommendations (product_id rec) of
           Some r \<Rightarrow>
             AList.update (product_id rec) (r\<lparr>score := score r + score rec * (1 / 2)\<rparr>) recommendations
         | None \<Rightarrow>
             AList.update (product_id rec) (rec\<lparr>reason := ''Similar to items you viewed''\<rparr>) recommendations)
      else recommendations)"

definition merge_collaborative ::
  "string set \<Rightarrow> recommended_product \<Rightarrow> (string \<times> recommended_product) list
     \<Rightarrow> (string \<times> recommended_product) list" where
  "merge_collaborative excluded_products rec recommendations =
     (if product_id rec \<notin> excluded_products then
        (case map_of recommendations (product_id rec) of
           Some r \<Rightarrow> AList.update (product_id rec) (r\<lparr>score := score r + score rec\<rparr>) recommendations
         | None \<Rightarrow> AList.update (product_id rec) rec recommendations)
      else recommendations)"

definition merge_category ::
  "string set \<Rightarrow> recommended_product \<Rightarrow> (string \<times> recommended_product) list
     \<Rightarrow> (string \<times> recommended_product) list" where
  "merge_category excluded_products rec recommendations =
     (if product_id rec \<notin> excluded_products then
        (case map_of recommendations (product_id rec) of
           Some r \<Rightarrow>
             AList.update (product_id rec) (r\<lparr>score := score r + score rec * (3 / 10)\<rparr>) recommendations
         | None \<Rightarrow>
             AList.update (product_id rec) (rec\<lparr>reason := ''Popular in your favorite categories''\<rparr>) recommendations)
      else recommendations)"

fun content_loop ::
  "string set \<Rightarrow> string list \<Rightarrow> (string \<times> recommended_product) list
     \<Rightarrow> (string \<times> recommended_product) list io" where
  "content_loop excluded_products [] recommendations = io_return recommendations"
| "content_loop excluded_products (product # rest) recommendations =
     io_bind (io_lift (get_similar_products product 5)) (\<lambda>similar.
       content_loop excluded_products rest (fold (merge_content excluded_products) similar recommendations))"

definition get_personalized_recommendations_body ::
  "string \<Rightarrow> int \<Rightarrow> bool \<Rightarrow> recommended_product list io" where
  "get_personalized_recommendations_body user_id limit exclude_purchased =
     (let cache_key = ''recommendations:personalized:'' @ user_id
      in io_bind (redis_get cache_key) (\<lambda>cached.
           case cached of
             Some recommendations \<Rightarrow> io_return (py_take limit recommendations)
           | None \<Rightarrow>
               io_bind (get_user_interactions user_id) (\<lambda>interactions.
                 if interactions = [] then io_lift (get_trending_products limit)
                 else
                   io_bind (if exclude_purchased then get_purchased_products user_id else io_return {})
                     (\<lambda>excluded_products.
                   let recent_products = map d_product_id (take 10 interactions)
                   in io_bind (content_loop excluded_products recent_products []) (\<lambda>recommendations.
                      io_bind (io_lift (collaborative_filtering user_id 10)) (\<lambda>cf_recommendations.
                      let recommendations =
                            fold (merge_collaborative excluded_products) cf_recommendations recommendations
                      in io_bind (get_user_profile user_id) (\<lambda>user_profile.
                         io_bind
                           (case user_profile of
                              None \<Rightarrow> io_return recommendations
                            | Some profile \<Rightarrow>
                                if preferred_categories profile \<noteq> [] then
                                  io_bind (io_lift (get_category_recommendations
                                                      (take 3 (preferred_categories profile)) 5))
                                    (\<lambda>category_recs.
                                       io_return (fold (merge_category excluded_products)
                                                    category_recs recommendations))
                                else io_return recommendations)
                           (\<lambda>recommendations.
                              let sorted_recs = py_take limit (sorted_desc score (map snd recommendations))
                              in io_seq (redis_setex cache_key cache_ttl sorted_recs)
                                        (io_return sorted_recs)))))))))"

text \<open>Any exception in the body is answered with the trending products.\<close>

definition get_personalized_recommendations ::
  "string \<Rightarrow> int \<Rightarrow> bool \<Rightarrow> store \<Rightarrow> recommended_product list \<times> store" where
  "get_personalized_recommendations user_id limit exclude_purchased s =
     (case get_personalized_recommendations_body user_id limit exclude_purchased s of
        (Inr recommendations, s') \<Rightarrow> (recommendations, s')
      | (Inl e, s') \<Rightarrow> get_trending_products limit s')"

section \<open>The tracking endpoint\<close>




section \<open>The event consumer\<close>











section \<open>Notions used in the statements\<close>

text \<open>
  \<open>io_ok P m Q\<close>: when \<open>m\<close> starts where \<open>P\<close> holds and returns normally, \<open>Q\<close>
  holds of its value and the store it leaves. \<open>io_inv R m\<close>: the store before and the
  store after \<open>m\<close> are related by \<open>R\<close>, however \<open>m\<close> ends.
\<close>

definition io_ok :: "(store \<Rightarrow> bool) \<Rightarrow> 'a io \<Rightarrow> ('a \<Rightarrow> store \<Rightarrow> bool) \<Rightarrow> bool" where
  "io_ok P m Q = (\<forall>s a s'. P s \<longrightarrow> m s = (Inr a, s') \<longrightarrow> Q a s')"

definition io_inv :: "(store \<Rightarrow> store \<Rightarrow> bool) \<Rightarrow> 'a io \<Rightarrow> bool" where
  "io_inv R m = (\<forall>s. R s (snd (m s)))"

text \<open>\<^verbatim>\<open>PopularityRank[p]\<close>: the score of \<open>p\<close> in the ranking, 0 when it has none.\<close>

definition popularity_of :: "store \<Rightarrow> string \<Rightarrow> rat" where
  "popularity_of s p = (case map_of (r_zsets s ''product:popularity'') p of None \<Rightarrow> 0 | Some x \<Rightarrow> x)"

definition pop_le :: "string \<Rightarrow> store \<Rightarrow> store \<Rightarrow> bool" where
  "pop_le p s s' = (popularity_of s p \<le> popularity_of s' p)"

definition same_on :: "(store \<Rightarrow> 'x) \<Rightarrow> store \<Rightarrow> store \<Rightarrow> bool" where
  "same_on g s s' = (g s' = g s)"

text \<open>A run of \<^verbatim>\<open>track_interaction\<close> calls, one after the other, with their results.\<close>

fun track_all :: "(string \<times> user_interaction) list \<Rightarrow> store \<Rightarrow> bool list \<times> store" where
  "track_all [] s = ([], s)"
| "track_all ((now, interaction) # rest) s =
     (case track_interaction now interaction s of
        (ok, s1) \<Rightarrow> (case track_all rest s1 of (oks, s2) \<Rightarrow> (ok # oks, s2)))"

definition c8_calls :: "(string \<times> user_interaction) list" where
  "c8_calls =
     [(''t1'', \<lparr>ui_user_id = ''u1'', ui_product_id = ''P'', ui_interaction_type = PURCHASE, ui_timestamp = ''t1''\<rparr>),
      (''t2'', \<lparr>ui_user_id = ''u1'', ui_product_id = ''Q'', ui_interaction_type = VIEW, ui_timestamp = ''t2''\<rparr>),
      (''t3'', \<lparr>ui_user_id = ''u2'', ui_product_id = ''P'', ui_interaction_type = PURCHASE, ui_timestamp = ''t3''\<rparr>)]"

definition co_strength :: "store \<Rightarrow> string \<Rightarrow> string \<Rightarrow> rat option" where
  "co_strength s a b = map_of (r_zsets s (''co_occurrence:'' @ a)) b"













text \<open>A store in which user \<open>u\<close> has a cached list and no log.\<close>

definition c6_store :: store where
  "c6_store = empty_store
     \<lparr>r_zsets := (\<lambda>_. [])(''product:popularity'' := [(''Q'', 1), (''P'', 10)]),
      r_strings := (\<lambda>_. None)(''recommendations:personalized:u'' \<mapsto>
          [\<lparr>product_id = ''X'', score = 1, reason = ''Similar to items you viewed''\<rparr>])\<rparr>"

text \<open>What \<^verbatim>\<open>get_similar_products\<close> fetches on a cache miss: the co-occurrents of the
  product, and the members of its category that the loop visits (none when the product
  has no metadata or no category).\<close>

definition co_purchases_of :: "store \<Rightarrow> string \<Rightarrow> int \<Rightarrow> (string \<times> rat) list" where
  "co_purchases_of s product limit =
     redis_range 0 (limit - 1) (zset_desc (r_zsets s (''co_occurrence:'' @ product)))"

definition category_siblings :: "store \<Rightarrow> string \<Rightarrow> int \<Rightarrow> string list" where
  "category_siblings s product limit =
     (case map_of (r_hashes s (''product:'' @ product)) ''category_id'' of
        None \<Rightarrow> []
      | Some c \<Rightarrow> if c = [] then [] else py_take limit (r_sets s (''category:'' @ c @ '':products'')))"

text \<open>Product \<open>A\<close> with co-occurrents \<open>B\<close>, \<open>C\<close> and category members \<open>A\<close>, \<open>B\<close>, \<open>D\<close>.\<close>

definition c9_store :: store where
  "c9_store = empty_store
     \<lparr>r_zsets := (\<lambda>_. [])(''co_occurrence:A'' := [(''C'', 1), (''B'', 3)]),
      r_sets := (\<lambda>_. [])(''category:cat1:products'' := [''A'', ''B'', ''D'']),
      r_hashes := (\<lambda>_. [])(''product:A'' :=
         [(''category_id'', ''cat1''), (''brand_id'', ''b''), (''price'', ''10''), (''name'', ''a'')])\<rparr>"




text \<open>No item of the list, and no item of any cached list, carries the reason of the
  category signal.\<close>

definition clean :: "recommended_product list \<Rightarrow> bool" where
  "clean recs = (\<forall>r\<in>set recs. reason r \<noteq> ''Popular in your favorite categories'')"

definition cache_clean :: "store \<Rightarrow> bool" where
  "cache_clean s = (\<forall>k recs. r_strings s k = Some recs \<longrightarrow> clean recs)"

text \<open>
  The invariant of the service: the cache is clean, and the popularity ranking of
  category \<open>c\<close>, the key that \<^verbatim>\<open>_get_category_recommendations\<close> reads, is \<open>z\<close>.
\<close>

definition service_inv :: "string \<Rightarrow> (string \<times> rat) list \<Rightarrow> store \<Rightarrow> bool" where
  "service_inv c z s = (cache_clean s \<and> r_zsets s (''category:'' @ c @ '':popular'') = z)"






text \<open>Product \<open>A\<close> was bought with \<open>B1\<close> five times, with \<open>B2\<close> four times and with
  \<open>X\<close> three times.\<close>

definition c5_store :: store where
  "c5_store = empty_store
     \<lparr>r_zsets := (\<lambda>_. [])
        (''co_occurrence:A'' := [(''B1'', 5), (''B2'', 4), (''X'', 3)],
         ''co_occurrence:B1'' := [(''A'', 5)],
         ''co_occurrence:B2'' := [(''A'', 4)],
         ''co_occurrence:X'' := [(''A'', 3)])\<rparr>"

text \<open>The interactions of three users: \<open>v\<close> and \<open>w\<close> connect \<open>A\<close> with \<open>X\<close> and \<open>B\<close>
  with \<open>Y\<close>; \<open>u\<close> views \<open>A\<close>, \<open>B\<close>, \<open>C\<close>, \<open>D\<close> and then buys \<open>A\<close>.\<close>

definition c4_calls :: "(string \<times> user_interaction) list" where
  "c4_calls =
     [(''t'', \<lparr>ui_user_id = ''v'', ui_product_id = ''X'', ui_interaction_type = VIEW, ui_timestamp = ''t''\<rparr>),
      (''t'', \<lparr>ui_user_id = ''v'', ui_product_id = ''A'', ui_interaction_type = VIEW, ui_timestamp = ''t''\<rparr>),
      (''t'', \<lparr>ui_user_id = ''w'', ui_product_id = ''Y'', ui_interaction_type = VIEW, ui_timestamp = ''t''\<rparr>),
      (''t'', \<lparr>ui_user_id = ''w'', ui_product_id = ''B'', ui_interaction_type = VIEW, ui_timestamp = ''t''\<rparr>),
      (''t'', \<lparr>ui_user_id = ''u'', ui_product_id = ''A'', ui_interaction_type = VIEW, ui_timestamp = ''t''\<rparr>),
      (''t'', \<lparr>ui_user_id = ''u'', ui_product_id = ''B'', ui_interaction_type = VIEW, ui_timestamp = ''t''\<rparr>),
      (''t'', \<lparr>ui_user_id = ''u'', ui_product_id = ''C'', ui_interaction_type = VIEW, ui_timestamp = ''t''\<rparr>),
      (''t'', \<lparr>ui_user_id = ''u'', ui_product_id = ''D'', ui_interaction_type = VIEW, ui_timestamp = ''t''\<rparr>),
      (''t'', \<lparr>ui_user_id = ''u'', ui_product_id = ''A'', ui_interaction_type = PURCHASE, ui_timestamp = ''t''\<rparr>)]"

text \<open>User \<open>u\<close> buys \<open>X\<close> and then views \<open>P\<close>.\<close>

definition c1_calls :: "(string \<times> user_interaction) list" where
  "c1_calls =
     [(''t1'', \<lparr>ui_user_id = ''u'', ui_product_id = ''X'', ui_interaction_type = PURCHASE, ui_timestamp = ''t1''\<rparr>),
      (''t2'', \<lparr>ui_user_id = ''u'', ui_product_id = ''P'', ui_interaction_type = VIEW, ui_timestamp = ''t2''\<rparr>)]"

definition c4_store :: store where
  "c4_store = snd (track_all c4_calls empty_store)"

text \<open>The store after the two interactions and a first call of
  \<^verbatim>\<open>get_personalized_recommendations\<close> with \<^verbatim>\<open>exclude_purchased=False\<close>.\<close>

definition c1_store :: store where
  "c1_store = snd (get_personalized_recommendations ''u'' 10 False (snd (track_all c1_calls empty_store)))"

section \<open>Rules for the store monad\<close>

lemma io_ok_bind:
  assumes "io_ok P m Q" and "\<And>a. io_ok (Q a) (f a) R"
  shows "io_ok P (io_bind m f) R"
  using assms unfolding io_ok_def io_bind_def
  by (auto split: prod.splits sum.splits)

lemma io_ok_seq:
  assumes "io_ok P m (\<lambda>_. Q)" and "io_ok Q n R"
  shows "io_ok P (io_seq m n) R"
  unfolding io_seq_def using assms by (auto intro: io_ok_bind)


lemma io_ok_call:
  assumes "\<And>s fs a s'. P s \<Longrightarrow> f (s\<lparr>faults := fs\<rparr>) = (Inr a, s') \<Longrightarrow> Q a s'"
  shows "io_ok P (redis_call f) Q"
  unfolding io_ok_def redis_call_def
proof (intro allI impI)
  fix s a s'
  assume P: "P s" and r: "(case faults s of [] \<Rightarrow> f s | b # bs \<Rightarrow> if b then (Inl RedisError, s\<lparr>faults := bs\<rparr>) else f (s\<lparr>faults := bs\<rparr>)) = (Inr a, s')"
  show "Q a s'"
  proof (cases "faults s")
    case Nil
    then have "f (s\<lparr>faults := []\<rparr>) = (Inr a, s')" using r by (metis (no_types, lifting) list.simps(4) store.surjective store.update_convs(7))
    then show ?thesis using assms P by blast
  next
    case (Cons b bs)
    then show ?thesis using r assms[OF P, of bs a s'] by (auto split: if_splits)
  qed
qed


lemma io_inv_bind:
  assumes "transp R" "io_inv R m" "\<And>a. io_inv R (f a)"
  shows "io_inv R (io_bind m f)"
  unfolding io_inv_def io_bind_def
proof
  fix s
  show "R s (snd (case m s of (Inl e, s') \<Rightarrow> (Inl e, s') | (Inr a, s') \<Rightarrow> f a s'))"
  proof (cases "m s")
    case (Pair r s1)
    then have 1: "R s s1" using assms(2) unfolding io_inv_def by (metis snd_conv)
    show ?thesis
    proof (cases r)
      case (Inl e) then show ?thesis using Pair 1 by simp
    next
      case (Inr a)
      have "R s1 (snd (f a s1))" using assms(3) unfolding io_inv_def by blast
      then show ?thesis using Pair Inr 1 assms(1) by (auto dest: transpD)
    qed
  qed
qed

lemma io_inv_seq: "transp R \<Longrightarrow> io_inv R m \<Longrightarrow> io_inv R n \<Longrightarrow> io_inv R (io_seq m n)"
  unfolding io_seq_def by (rule io_inv_bind)

lemma io_inv_return: "reflp R \<Longrightarrow> io_inv R (io_return a)"
  by (simp add: io_inv_def io_return_def reflpD)

lemma io_inv_call:
  assumes "\<And>s. R s (s\<lparr>faults := tl (faults s)\<rparr>)" "\<And>s. R s (snd (f s))" "\<And>s. R s (snd (f (s\<lparr>faults := tl (faults s)\<rparr>)))"
  shows "io_inv R (redis_call f)"
  unfolding io_inv_def redis_call_def
proof
  fix s
  show "R s (snd (case faults s of [] \<Rightarrow> f s | b # bs \<Rightarrow> if b then (Inl RedisError, s\<lparr>faults := bs\<rparr>) else f (s\<lparr>faults := bs\<rparr>)))"
    using assms(1)[of s] assms(2)[of s] assms(3)[of s] by (cases "faults s") auto
qed

lemma map_of_zset_incr:
  "map_of (zset_incr incr m z) = (map_of z)(m \<mapsto> (case map_of z m of None \<Rightarrow> incr | Some x \<Rightarrow> x + incr))"
  by (simp add: zset_incr_def update_conv' split: option.splits)

section \<open>Recording: popularity\<close>

lemma pop_le_refl: "reflp (pop_le p)" by (simp add: reflp_def pop_le_def)

lemma pop_le_trans: "transp (pop_le p)" by (auto simp: transp_def pop_le_def)

lemmas prim_defs = redis_lpush_def redis_ltrim_def redis_lrange_def redis_expire_def
  redis_zincrby_def redis_zrevrange_def redis_get_def redis_setex_def redis_hgetall_def
  redis_hset_def redis_smembers_def redis_sadd_def redis_hincrby_def

lemma pop_le_zincrby: "0 \<le> incr \<Longrightarrow> io_inv (pop_le p) (redis_zincrby k incr m)"
  unfolding redis_zincrby_def
  by (rule io_inv_call) (auto simp: pop_le_def popularity_of_def map_of_zset_incr split: option.splits)

lemma pop_le_other:
  "io_inv (pop_le p) (redis_lpush k v)"
  "io_inv (pop_le p) (redis_ltrim k a b)"
  "io_inv (pop_le p) (redis_lrange k a b)"
  "io_inv (pop_le p) (redis_expire k n)"
  "io_inv (pop_le p) (redis_hset k f v')"
  "io_inv (pop_le p) (redis_sadd k m)"
  "io_inv (pop_le p) (redis_hincrby k f i)"
  unfolding prim_defs
  by (rule io_inv_call; auto simp: pop_le_def popularity_of_def split: option.splits)+

lemma pop_le_loop: "io_inv (pop_le p) (co_occurrence_loop a os)"
  by (induction os) (auto simp: Let_def intro!: io_inv_seq io_inv_return pop_le_refl pop_le_trans pop_le_zincrby pop_le_other)

lemma pop_le_body: "io_inv (pop_le p) (track_interaction_body now i)"
  unfolding track_interaction_body_def update_co_occurrence_def update_user_profile_def get_user_interactions_def Let_def
  by (cases "ui_interaction_type i") (auto intro!: io_inv_seq io_inv_bind io_inv_return pop_le_refl pop_le_trans pop_le_zincrby pop_le_other pop_le_loop)

lemma track_monotone: "popularity_of s p \<le> popularity_of (snd (track_interaction now i s)) p"
  using pop_le_body[of p now i] unfolding io_inv_def pop_le_def track_interaction_def
  by (auto split: prod.splits sum.splits dest!: spec[of _ s])

lemma same_on_refl: "reflp (same_on g)" by (simp add: reflp_def same_on_def)

lemma same_on_trans: "transp (same_on g)" by (auto simp: transp_def same_on_def)

lemma io_inv_ok: "io_inv (same_on g) m \<Longrightarrow> io_ok (\<lambda>s. g s = c) m (\<lambda>_ s. g s = c)"
  unfolding io_inv_def io_ok_def same_on_def by (metis snd_conv)

lemma pop_same_prims:
  "io_inv (same_on (\<lambda>s. popularity_of s p)) (redis_lpush k v)"
  "io_inv (same_on (\<lambda>s. popularity_of s p)) (redis_ltrim k a b)"
  "io_inv (same_on (\<lambda>s. popularity_of s p)) (redis_lrange k a b)"
  "io_inv (same_on (\<lambda>s. popularity_of s p)) (redis_expire k n)"
  "io_inv (same_on (\<lambda>s. popularity_of s p)) (redis_hset k f v')"
  "io_inv (same_on (\<lambda>s. popularity_of s p)) (redis_sadd k m)"
  "io_inv (same_on (\<lambda>s. popularity_of s p)) (redis_hincrby k f i)"
  "k \<noteq> ''product:popularity'' \<Longrightarrow> io_inv (same_on (\<lambda>s. popularity_of s p)) (redis_zincrby k incr m)"
  unfolding prim_defs
  by (rule io_inv_call; auto simp: same_on_def popularity_of_def split: option.splits)+

lemma pop_same_loop: "io_inv (same_on (\<lambda>s. popularity_of s p)) (co_occurrence_loop a os)"
  by (induction os) (auto simp: Let_def intro!: io_inv_seq io_inv_return same_on_refl same_on_trans pop_same_prims)

lemma pop_same_update_co: "io_inv (same_on (\<lambda>s. popularity_of s p)) (update_co_occurrence u a)"
  unfolding update_co_occurrence_def get_user_interactions_def Let_def
  by (auto intro!: io_inv_bind same_on_trans pop_same_prims pop_same_loop)

lemma pop_same_profile: "io_inv (same_on (\<lambda>s. popularity_of s p)) (update_user_profile now i)"
  unfolding update_user_profile_def Let_def
  by (auto intro!: io_inv_seq io_inv_return same_on_refl same_on_trans pop_same_prims)

lemma pop_keep:
  "io_inv (same_on (\<lambda>s. popularity_of s p)) m \<Longrightarrow>
   io_ok (\<lambda>s. popularity_of s p = c) m (\<lambda>_ s. popularity_of s p = c)"
  unfolding io_inv_def io_ok_def same_on_def by (metis snd_conv)

lemma pop_zincrby_ok:
  "io_ok (\<lambda>s. popularity_of s p = c) (redis_zincrby ''product:popularity'' w q)
     (\<lambda>_ s. popularity_of s p = c + (if q = p then w else 0))"
  unfolding redis_zincrby_def
  by (rule io_ok_call) (auto simp: popularity_of_def map_of_zset_incr split: option.splits)

lemma pop_body_ok:
  "io_ok (\<lambda>s. popularity_of s p = c) (track_interaction_body now i)
     (\<lambda>_ s. popularity_of s p = c + (if ui_product_id i = p then interaction_weights (ui_interaction_type i) else 0))"
  unfolding track_interaction_body_def Let_def interaction_data.simps
  apply (rule io_ok_seq[OF pop_keep[OF pop_same_prims(1)]])
  apply (rule io_ok_seq[OF pop_keep[OF pop_same_prims(2)]])
  apply (rule io_ok_seq[OF pop_keep[OF pop_same_prims(4)]])
  apply (rule io_ok_seq[OF pop_zincrby_ok])
  apply (rule io_ok_seq[OF pop_keep[OF pop_same_update_co]])
  apply (rule pop_keep[OF pop_same_profile])
  done

lemma track_success_popularity:
  assumes "track_interaction now i s = (True, s')"
  shows "popularity_of s' p = popularity_of s p + (if ui_product_id i = p then interaction_weights (ui_interaction_type i) else 0)"
proof -
  obtain r where r: "track_interaction_body now i s = (r, s')"
    using assms unfolding track_interaction_def by (auto split: prod.splits sum.splits)
  with assms obtain u where "r = Inr u"
    unfolding track_interaction_def by (cases r) auto
  with r have "track_interaction_body now i s = (Inr u, s')" by simp
  with pop_body_ok[of p "popularity_of s p" now i] show ?thesis
    unfolding io_ok_def by blast
qed

lemma track_all_Cons:
  "snd (track_all ((now, i) # calls) s) = snd (track_all calls (snd (track_interaction now i s)))"
  "fst (track_all ((now, i) # calls) s) =
     fst (track_interaction now i s) # fst (track_all calls (snd (track_interaction now i s)))"
  by (simp_all split: prod.splits)

lemma track_all_monotone: "popularity_of s p \<le> popularity_of (snd (track_all calls s)) p"
proof (induction calls arbitrary: s)
  case Nil
  then show ?case by simp
next
  case (Cons c calls)
  obtain now i where c: "c = (now, i)" by (cases c)
  have "popularity_of s p \<le> popularity_of (snd (track_interaction now i s)) p"
    by (rule track_monotone)
  also have "\<dots> \<le> popularity_of (snd (track_all calls (snd (track_interaction now i s)))) p"
    by (rule Cons.IH)
  finally show ?case using c by (simp only: track_all_Cons)
qed

lemma track_all_popularity:
  assumes "list_all (\<lambda>ok. ok) (fst (track_all calls s))"
  shows "popularity_of (snd (track_all calls s)) p =
         popularity_of s p + sum_list (map (\<lambda>(now, i). interaction_weights (ui_interaction_type i)) (filter (\<lambda>(now, i). ui_product_id i = p) calls))"
  using assms
proof (induction calls arbitrary: s)
  case Nil
  then show ?case by simp
next
  case (Cons c calls)
  obtain now i where c: "c = (now, i)" by (cases c)
  obtain ok s1 where t: "track_interaction now i s = (ok, s1)" by (cases "track_interaction now i s")
  from Cons.prems c t have ok: "ok" and rest: "list_all (\<lambda>ok. ok) (fst (track_all calls s1))"
    by (simp_all add: track_all_Cons del: track_all.simps)
  from t ok have "popularity_of s1 p = popularity_of s p + (if ui_product_id i = p then interaction_weights (ui_interaction_type i) else 0)"
    by (simp add: track_success_popularity[of now i s s1 p])
  moreover have "snd (track_all (c # calls) s) = snd (track_all calls s1)"
    using c t by (simp only: track_all_Cons snd_conv)
  ultimately show ?case using Cons.IH[OF rest] c by simp
qed

lemma purchase_weights_sum:
  assumes "\<forall>(now, i)\<in>set calls. ui_interaction_type i = PURCHASE"
  shows "sum_list (map (\<lambda>(now, i). interaction_weights (ui_interaction_type i)) calls) = 5 * of_nat (length calls)"
  using assms by (induction calls) (auto simp: algebra_simps)

text \<open>
  Claim C8. When every call of a run of \<^verbatim>\<open>track_interaction\<close> calls returns
  \<open>True\<close> and the interactions of the run with product \<open>P\<close> are all purchases,
  the popularity of \<open>P\<close> grows by exactly 5 for each of them, whatever interactions
  with other products lie between them. And no run of calls, whatever their types and
  results, lowers the popularity of any product.
\<close>

theorem popularity_purchase_increment:
  assumes "list_all (\<lambda>ok. ok) (fst (track_all calls s))"
    and "\<forall>(now, i)\<in>set calls. ui_product_id i = P \<longrightarrow> ui_interaction_type i = PURCHASE"
  shows "popularity_of (snd (track_all calls s)) P =
           popularity_of s P + 5 * of_nat (length (filter (\<lambda>(now, i). ui_product_id i = P) calls))
         \<and> popularity_of t q \<le> popularity_of (snd (track_all calls' t)) q"
proof -
  have "\<forall>(now, i)\<in>set (filter (\<lambda>(now, i). ui_product_id i = P) calls). ui_interaction_type i = PURCHASE"
    using assms(2) by auto
  then have "sum_list (map (\<lambda>(now, i). interaction_weights (ui_interaction_type i)) (filter (\<lambda>(now, i). ui_product_id i = P) calls))
      = 5 * of_nat (length (filter (\<lambda>(now, i). ui_product_id i = P) calls))"
    by (rule purchase_weights_sum)
  then show ?thesis
    using track_all_popularity[OF assms(1), of P] track_all_monotone[of t q calls'] by simp
qed

lemmas eval_defs = prim_defs redis_call_def io_bind_def io_seq_def io_return_def io_raise_def
  track_interaction_def track_interaction_body_def update_co_occurrence_def update_user_profile_def
  get_user_interactions_def empty_store_def redis_range_def py_take_def zset_incr_def
  string_of_int_def int_of_string_def digit_of_char_def char_of_digit_def digits_def
  string_of_nat.simps Let_def

lemma c8_calls_recorded: "fst (track_all c8_calls empty_store) = [True, True, True]"
  by (simp add: c8_calls_def eval_defs)

theorem popularity_purchase_increment_witness:
  "popularity_of (snd (track_all c8_calls empty_store)) ''P'' = 10
   \<and> popularity_of empty_store ''Q'' \<le> popularity_of (snd (track_all c8_calls empty_store)) ''Q''"
proof -
  have h1: "list_all (\<lambda>ok. ok) (fst (track_all c8_calls empty_store))"
    by (simp add: c8_calls_recorded)
  have h2: "\<forall>(now, i)\<in>set c8_calls. ui_product_id i = ''P'' \<longrightarrow> ui_interaction_type i = PURCHASE"
    by (simp add: c8_calls_def)
  have "popularity_of empty_store ''P'' = 0"
    by (simp add: popularity_of_def empty_store_def)
  moreover have "length (filter (\<lambda>(now, i). ui_product_id i = ''P'') c8_calls) = 2"
    by (simp add: c8_calls_def)
  ultimately show ?thesis
    using popularity_purchase_increment[OF h1 h2, where t = empty_store and q = "''Q''" and calls' = c8_calls]
    by simp
qed

section \<open>Recording: the co-occurrence graph\<close>
























section \<open>Recording: failure is a result\<close>
















section \<open>Cold start\<close>

lemma call_ok: "faults s = [] \<Longrightarrow> redis_call f s = f s"
  by (simp add: redis_call_def)

lemma nf_prims:
  "faults s = [] \<Longrightarrow> redis_get k s = (Inr (r_strings s k), s)"
  "faults s = [] \<Longrightarrow> redis_lrange k a b s = (Inr (redis_range a b (r_lists s k)), s)"
  "faults s = [] \<Longrightarrow> redis_zrevrange k a b s = (Inr (redis_range a b (zset_desc (r_zsets s k))), s)"
  "faults s = [] \<Longrightarrow> redis_hgetall k s = (Inr (r_hashes s k), s)"
  "faults s = [] \<Longrightarrow> redis_smembers k s = (Inr (r_sets s k), s)"
  "faults s = [] \<Longrightarrow> redis_setex k n v s =
      (Inr (), s\<lparr>r_strings := (r_strings s)(k \<mapsto> v), r_ttl := (r_ttl s)(k \<mapsto> n)\<rparr>)"
  by (simp_all add: prim_defs call_ok)

lemma redis_range_Nil: "redis_range a b [] = []"
  by (simp add: redis_range_def Let_def)

text \<open>
  Claim C6, amended. For a user whose interaction log is empty and who has no
  personalized cache entry, when no store call fails,
  \<^verbatim>\<open>get_personalized_recommendations\<close> returns what
  \<^verbatim>\<open>get_trending_products\<close> returns on the same store, and leaves the same store,
  for every limit and either value of \<^verbatim>\<open>exclude_purchased\<close>. The cache is read
  before the log: with a cache entry present, the cached list is returned instead, as
  the store \<open>c6_store\<close> shows.
\<close>

theorem cold_start_is_trending:
  assumes "faults s = []"
    and "r_strings s (''recommendations:personalized:'' @ user_id) = None"
    and "r_lists s (''interactions:'' @ user_id) = []"
  shows "get_personalized_recommendations user_id limit exclude_purchased s = get_trending_products limit s"
proof -
  have "get_personalized_recommendations_body user_id limit exclude_purchased s
        = io_lift (get_trending_products limit) s"
    unfolding get_personalized_recommendations_body_def get_user_interactions_def Let_def
    using assms by (simp add: io_bind_def nf_prims redis_range_Nil)
  then show ?thesis
    by (simp add: get_personalized_recommendations_def io_lift_def split: prod.splits)
qed

lemma eval_sort:
  "zset_desc [(''Q'', 1), (''P'', 10)] = [(''P'', 10), (''Q'', 1)]"
  by (simp add: zset_desc_def)

lemma c6_store_outputs:
  "r_lists c6_store (''interactions:'' @ ''u'') = []
   \<and> fst (get_personalized_recommendations ''u'' 10 True c6_store)
       = [\<lparr>product_id = ''X'', score = 1, reason = ''Similar to items you viewed''\<rparr>]
   \<and> fst (get_trending_products 10 c6_store)
       = [\<lparr>product_id = ''P'', score = 10, reason = ''Trending now''\<rparr>,
          \<lparr>product_id = ''Q'', score = 1, reason = ''Trending now''\<rparr>]"
  by (simp add: c6_store_def get_personalized_recommendations_def get_personalized_recommendations_body_def
      get_trending_products_def get_trending_products_body_def eval_defs zset_desc_def)

theorem cold_start_counterexample:
  "r_lists c6_store (''interactions:'' @ ''u'') = []
   \<and> fst (get_personalized_recommendations ''u'' 10 True c6_store)
       \<noteq> fst (get_trending_products 10 c6_store)"
  using c6_store_outputs by simp

theorem cold_start_is_trending_witness:
  "get_personalized_recommendations ''v'' 10 True c6_store = get_trending_products 10 c6_store"
proof -
  have "faults c6_store = []"
    and "r_strings c6_store (''recommendations:personalized:'' @ ''v'') = None"
    and "r_lists c6_store (''interactions:'' @ ''v'') = []"
    by (simp_all add: c6_store_def empty_store_def)
  then show ?thesis by (rule cold_start_is_trending)
qed

section \<open>Similar products\<close>

lemma set_update_subset: "set (AList.update k v al) \<subseteq> insert (k, v) (set al)"
  by (induction al) auto

lemma sorted_desc_sorted: "sorted_wrt (\<lambda>a b. key b \<le> key a) (sorted_desc key xs)"
proof -
  have "sorted (map (\<lambda>x. - key x) (sort_key (\<lambda>x. - key x) xs))" by (rule sorted_sort_key)
  then show ?thesis by (simp add: sorted_desc_def sorted_map)
qed

lemma set_sorted_desc: "set (sorted_desc key xs) = set xs"
  by (simp add: sorted_desc_def)

lemma distinct_map_sorted_desc: "distinct (map f (sorted_desc key xs)) = distinct (map f xs)"
proof -
  have "mset (map f (sorted_desc key xs)) = mset (map f xs)"
    by (simp add: sorted_desc_def)
  then show ?thesis by (rule mset_eq_imp_distinct_iff)
qed

lemma py_take_sorted: "sorted_wrt R xs \<Longrightarrow> sorted_wrt R (py_take k xs)"
  by (simp add: py_take_def sorted_wrt_take)

lemma set_py_take: "set (py_take k xs) \<subseteq> set xs"
  by (simp add: py_take_def set_take_subset)

lemma length_py_take: "0 \<le> k \<Longrightarrow> length (py_take k xs) \<le> nat k"
  by (simp add: py_take_def)

lemma distinct_map_py_take: "distinct (map f xs) \<Longrightarrow> distinct (map f (py_take k xs))"
  by (simp add: py_take_def take_map[symmetric] del: take_map)

lemma co_fold_entries:
  assumes "set xs \<subseteq> C"
    and "\<forall>(k, r)\<in>set d. product_id r = k \<and> (k, score r) \<in> C \<and> reason r = ''Frequently bought together''"
  shows "\<forall>(k, r)\<in>set (fold add_co_purchase xs d).
           product_id r = k \<and> (k, score r) \<in> C \<and> reason r = ''Frequently bought together''"
  using assms
proof (induction xs arbitrary: d)
  case Nil
  then show ?case by simp
next
  case (Cons x xs)
  obtain m sc where x: "x = (m, sc)" by (cases x)
  have "\<forall>(k, r)\<in>set (add_co_purchase x d).
           product_id r = k \<and> (k, score r) \<in> C \<and> reason r = ''Frequently bought together''"
    using Cons.prems set_update_subset[of m "\<lparr>product_id = m, score = sc, reason = ''Frequently bought together''\<rparr>" d]
    unfolding x add_co_purchase_def by auto
  moreover have "set xs \<subseteq> C" using Cons.prems by simp
  ultimately show ?case using Cons.IH by simp
qed

lemma co_fold_keys: "fst ` set (fold add_co_purchase xs d) = fst ` set xs \<union> fst ` set d"
proof (induction xs arbitrary: d)
  case Nil
  then show ?case by simp
next
  case (Cons x xs)
  obtain m sc where x: "x = (m, sc)" by (cases x)
  have "fst ` set (add_co_purchase x d) = insert m (fst ` set d)"
    unfolding x add_co_purchase_def by (simp add: dom_update)
  then show ?case using Cons.IH[of "add_co_purchase x d"] x by auto
qed

lemma co_fold_distinct: "distinct (map fst d) \<Longrightarrow> distinct (map fst (fold add_co_purchase xs d))"
proof (induction xs arbitrary: d)
  case Nil
  then show ?case by simp
next
  case (Cons x xs)
  obtain m sc where x: "x = (m, sc)" by (cases x)
  have "distinct (map fst (add_co_purchase x d))"
    unfolding x add_co_purchase_def using Cons.prems by (simp add: distinct_update)
  then show ?case using Cons.IH by simp
qed

lemma cat_fold_entries:
  "(k, r) \<in> set (fold (add_category_product p) ys d) \<Longrightarrow>
   (k, r) \<in> set d \<or>
   (k \<notin> fst ` set d \<and> k \<noteq> p \<and> k \<in> set ys \<and> r = \<lparr>product_id = k, score = 1 / 2, reason = ''Same category''\<rparr>)"
proof (induction ys arbitrary: d)
  case Nil
  then show ?case by simp
next
  case (Cons y ys)
  from Cons.prems have "(k, r) \<in> set (fold (add_category_product p) ys (add_category_product p y d))"
    by simp
  from Cons.IH[OF this] show ?case
  proof
    assume "(k, r) \<in> set (add_category_product p y d)"
    then show ?thesis
      using set_update_subset[of y "\<lparr>product_id = y, score = 1 / 2, reason = ''Same category''\<rparr>" d]
      by (auto simp: add_category_product_def split: if_splits)
  next
    assume a: "k \<notin> fst ` set (add_category_product p y d) \<and> k \<noteq> p \<and> k \<in> set ys \<and>
      r = \<lparr>product_id = k, score = 1 / 2, reason = ''Same category''\<rparr>"
    have "fst ` set d \<subseteq> fst ` set (add_category_product p y d)"
      by (auto simp: add_category_product_def dom_update)
    with a show ?thesis by auto
  qed
qed

lemma cat_fold_distinct:
  "distinct (map fst d) \<Longrightarrow> distinct (map fst (fold (add_category_product p) ys d))"
  by (induction ys arbitrary: d) (simp_all add: add_category_product_def distinct_update)

lemma similar_miss:
  assumes "faults s = []" and "r_strings s (''recommendations:similar:'' @ product) = None"
  shows "\<exists>s'. get_similar_products_body product limit s =
     (Inr (py_take limit (sorted_desc score (map snd
         (fold (add_category_product product) (category_siblings s product limit)
            (fold add_co_purchase (co_purchases_of s product limit) []))))), s')"
  unfolding get_similar_products_body_def Let_def
  using assms
  by (simp add: io_bind_def io_seq_def io_return_def nf_prims co_purchases_of_def category_siblings_def
      split: option.splits)

lemma similar_merged_entries:
  assumes "(k, r) \<in> set (fold (add_category_product product) sibs (fold add_co_purchase co []))"
  shows "product_id r = k \<and>
         (((k, score r) \<in> set co \<and> reason r = ''Frequently bought together'') \<or>
          (k \<notin> fst ` set co \<and> k \<noteq> product \<and> k \<in> set sibs \<and> score r = 1 / 2 \<and> reason r = ''Same category''))"
proof -
  have base: "\<forall>(k, r)\<in>set (fold add_co_purchase co []).
      product_id r = k \<and> (k, score r) \<in> set co \<and> reason r = ''Frequently bought together''"
    by (rule co_fold_entries) simp_all
  have keys: "fst ` set (fold add_co_purchase co []) = fst ` set co"
    by (simp add: co_fold_keys)
  from cat_fold_entries[OF assms] show ?thesis
  proof
    assume "(k, r) \<in> set (fold add_co_purchase co [])"
    with base show ?thesis by auto
  next
    assume "k \<notin> fst ` set (fold add_co_purchase co []) \<and> k \<noteq> product \<and> k \<in> set sibs \<and>
      r = \<lparr>product_id = k, score = 1 / 2, reason = ''Same category''\<rparr>"
    with keys show ?thesis by simp
  qed
qed

lemma similar_merged_ids:
  "map product_id (map snd (fold (add_category_product product) sibs (fold add_co_purchase co [])))
   = map fst (fold (add_category_product product) sibs (fold add_co_purchase co []))"
  using similar_merged_entries[of _ _ product sibs co] by (auto simp: map_eq_conv)

lemma similar_merged_distinct:
  "distinct (map product_id (map snd (fold (add_category_product product) sibs (fold add_co_purchase co []))))"
  unfolding similar_merged_ids by (intro cat_fold_distinct co_fold_distinct) simp

lemma category_siblings_no_metadata:
  "r_hashes s (''product:'' @ product) = [] \<Longrightarrow> category_siblings s product limit = []"
  by (simp add: category_siblings_def)

text \<open>
  Claim C9. On a cache miss of \<^verbatim>\<open>get_similar_products\<close>, when no store call
  fails, for every product and limit: every returned item is either a fetched
  co-occurrent with its strength as score and the reason "Frequently bought together", or
  a visited member of the product's category that is not the product itself and not a
  fetched co-occurrent, with score 0.5 and the reason "Same category"; no product is
  returned twice, so a product that is both keeps its co-occurrence entry; the result is
  the merged dictionary sorted by descending score and cut to \<^verbatim>\<open>[:limit]\<close>; and
  when the product has no metadata the body still returns normally, with co-occurrence
  entries only.
\<close>

theorem similar_products_merge:
  assumes "faults s = []" and "r_strings s (''recommendations:similar:'' @ product) = None"
  shows "(\<forall>r\<in>set (fst (get_similar_products product limit s)).
            ((product_id r, score r) \<in> set (co_purchases_of s product limit)
               \<and> reason r = ''Frequently bought together'') \<or>
            (product_id r \<notin> fst ` set (co_purchases_of s product limit)
               \<and> product_id r \<noteq> product
               \<and> product_id r \<in> set (category_siblings s product limit)
               \<and> score r = 1 / 2 \<and> reason r = ''Same category''))
         \<and> distinct (map product_id (fst (get_similar_products product limit s)))
         \<and> sorted_wrt (\<lambda>a b. score b \<le> score a) (fst (get_similar_products product limit s))
         \<and> fst (get_similar_products product limit s) =
             py_take limit (sorted_desc score (map snd
               (fold (add_category_product product) (category_siblings s product limit)
                  (fold add_co_purchase (co_purchases_of s product limit) []))))
         \<and> (0 \<le> limit \<longrightarrow> length (fst (get_similar_products product limit s)) \<le> nat limit)
         \<and> (r_hashes s (''product:'' @ product) = [] \<longrightarrow>
              (\<exists>s'. get_similar_products_body product limit s = (Inr (fst (get_similar_products product limit s)), s'))
              \<and> (\<forall>r\<in>set (fst (get_similar_products product limit s)).
                    (product_id r, score r) \<in> set (co_purchases_of s product limit)
                    \<and> reason r = ''Frequently bought together''))"
proof -
  define co where "co = co_purchases_of s product limit"
  define sibs where "sibs = category_siblings s product limit"
  define merged where "merged = fold (add_category_product product) sibs (fold add_co_purchase co [])"
  define out where "out = py_take limit (sorted_desc score (map snd merged))"
  from similar_miss[OF assms, of limit] obtain s' where
    body: "get_similar_products_body product limit s = (Inr out, s')"
    unfolding out_def merged_def co_def sibs_def by blast
  then have res: "fst (get_similar_products product limit s) = out"
    by (simp add: get_similar_products_def)
  have sub: "set out \<subseteq> set (map snd merged)"
    unfolding out_def using set_py_take[of limit "sorted_desc score (map snd merged)"]
    by (simp add: set_sorted_desc)
  have entries: "\<forall>r\<in>set out.
            ((product_id r, score r) \<in> set co \<and> reason r = ''Frequently bought together'') \<or>
            (product_id r \<notin> fst ` set co \<and> product_id r \<noteq> product \<and> product_id r \<in> set sibs
               \<and> score r = 1 / 2 \<and> reason r = ''Same category'')"
  proof
    fix r assume "r \<in> set out"
    with sub obtain k where "(k, r) \<in> set merged" by auto
    from similar_merged_entries[OF this[unfolded merged_def]] show
      "((product_id r, score r) \<in> set co \<and> reason r = ''Frequently bought together'') \<or>
       (product_id r \<notin> fst ` set co \<and> product_id r \<noteq> product \<and> product_id r \<in> set sibs
          \<and> score r = 1 / 2 \<and> reason r = ''Same category'')"
      by auto
  qed
  have "distinct (map product_id (map snd merged))"
    unfolding merged_def by (rule similar_merged_distinct)
  then have "distinct (map product_id (sorted_desc score (map snd merged)))"
    by (simp only: distinct_map_sorted_desc)
  then have dist: "distinct (map product_id out)"
    unfolding out_def by (rule distinct_map_py_take)
  have srt: "sorted_wrt (\<lambda>a b. score b \<le> score a) out"
    unfolding out_def by (intro py_take_sorted sorted_desc_sorted)
  have len: "0 \<le> limit \<longrightarrow> length out \<le> nat limit"
    unfolding out_def by (simp add: length_py_take)
  have nometa: "r_hashes s (''product:'' @ product) = [] \<longrightarrow>
        (\<exists>s'. get_similar_products_body product limit s = (Inr out, s'))
        \<and> (\<forall>r\<in>set out. (product_id r, score r) \<in> set co \<and> reason r = ''Frequently bought together'')"
  proof
    assume "r_hashes s (''product:'' @ product) = []"
    then have "sibs = []" unfolding sibs_def by (rule category_siblings_no_metadata)
    with entries body show "(\<exists>s'. get_similar_products_body product limit s = (Inr out, s'))
        \<and> (\<forall>r\<in>set out. (product_id r, score r) \<in> set co \<and> reason r = ''Frequently bought together'')"
      by auto
  qed
  show ?thesis
    unfolding res using entries dist srt len nometa
    unfolding out_def merged_def co_def sibs_def by blast
qed

theorem similar_products_merge_witness:
  "fst (get_similar_products ''A'' 10 c9_store) =
     [\<lparr>product_id = ''B'', score = 3, reason = ''Frequently bought together''\<rparr>,
      \<lparr>product_id = ''C'', score = 1, reason = ''Frequently bought together''\<rparr>,
      \<lparr>product_id = ''D'', score = 1 / 2, reason = ''Same category''\<rparr>]"
proof -
  have h1: "faults c9_store = []"
    by (simp add: c9_store_def empty_store_def)
  have h2: "r_strings c9_store (''recommendations:similar:'' @ ''A'') = None"
    by (simp add: c9_store_def empty_store_def)
  have co: "co_purchases_of c9_store ''A'' 10 = [(''B'', 3), (''C'', 1)]"
    by (simp add: co_purchases_of_def c9_store_def empty_store_def zset_desc_def redis_range_def)
  have sibs: "category_siblings c9_store ''A'' 10 = [''A'', ''B'', ''D'']"
    by (simp add: category_siblings_def c9_store_def empty_store_def py_take_def)
  from similar_products_merge[OF h1 h2, of 10]
  have "fst (get_similar_products ''A'' 10 c9_store) =
          py_take 10 (sorted_desc score (map snd
            (fold (add_category_product ''A'') (category_siblings c9_store ''A'' 10)
               (fold add_co_purchase (co_purchases_of c9_store ''A'' 10) []))))"
    by blast
  then show ?thesis
    by (simp add: co sibs add_co_purchase_def add_category_product_def sorted_desc_def py_take_def)
qed

section \<open>The category signal: what reaches the output\<close>









text \<open>Store calls and the cache invariant.\<close>

lemma cc_faults [simp]: "service_inv c z (s\<lparr>faults := fs\<rparr>) = service_inv c z s"
  by (simp add: service_inv_def cache_clean_def)

































lemma UserProfile_categories [simp]: "preferred_categories (UserProfile u c l) = []"
  by (simp add: UserProfile_def)
























section \<open>The category signal is dead\<close>









section \<open>Inputs where the code departs from the specification\<close>

lemmas read_defs = get_frequently_bought_together_def get_frequently_bought_together_body_def
  collaborative_filtering_def collaborative_filtering_body_def
  get_personalized_recommendations_def get_personalized_recommendations_body_def
  get_similar_products_def get_similar_products_body_def
  get_trending_products_def get_trending_products_body_def
  get_purchased_products_def get_user_profile_def UserProfile_def io_lift_def
  add_co_score_def add_weighted_def add_co_purchase_def add_category_product_def dict_add_def
  merge_content_def merge_collaborative_def merge_category_def
  sorted_desc_def zset_desc_def min_interactions_for_cf_def cache_ttl_def

text \<open>
  Claim C5, at an input where the code departs from it.
  \<^verbatim>\<open>get_frequently_bought_together\<close> asks for the ranks 0 to \<open>2 * limit\<close>, both
  included, so it fetches \<open>2 * limit + 1\<close> co-occurrents of each input product. With
  limit 1 and the input \<open>A\<close>, \<open>B1\<close>, \<open>B2\<close> it fetches three co-occurrents of \<open>A\<close> and
  returns \<open>X\<close>, the third; the first two are input products.
\<close>

theorem bought_together_fetches_one_more:
  "length (redis_range 0 (1 * 2) (zset_desc (r_zsets c5_store ''co_occurrence:A''))) = 3
   \<and> fst (get_frequently_bought_together [''A'', ''B1'', ''B2''] 1 c5_store) =
       [\<lparr>product_id = ''X'', score = 3, reason = ''Frequently bought together''\<rparr>]"
  by (simp add: c5_store_def read_defs eval_defs)

text \<open>
  Claim C4, at an input where the code departs from it. User \<open>u\<close> viewed \<open>A\<close>, \<open>B\<close>,
  \<open>C\<close>, \<open>D\<close> and then bought \<open>A\<close>. The dictionary of the user's products keeps, for a
  product with several interactions, the weight of the oldest one read, so \<open>A\<close> enters
  with the weight 1 of its view. \<open>X\<close> co-occurs with the purchased \<open>A\<close> and \<open>Y\<close> with
  the viewed \<open>B\<close>, both with strength 1, and both get the score 1.
\<close>

theorem collaborative_weight_is_oldest:
  "map (\<lambda>i. (d_product_id i, d_type i, d_score i)) (r_lists c4_store ''interactions:u'') =
     [(''A'', ''purchase'', 5), (''D'', ''view'', 1), (''C'', ''view'', 1), (''B'', ''view'', 1), (''A'', ''view'', 1)]
   \<and> co_strength c4_store ''A'' ''X'' = Some 1
   \<and> co_strength c4_store ''B'' ''Y'' = Some 1
   \<and> fst (collaborative_filtering ''u'' 10 c4_store) =
       [\<lparr>product_id = ''X'', score = 1, reason = ''Customers like you also bought''\<rparr>,
        \<lparr>product_id = ''Y'', score = 1, reason = ''Customers like you also bought''\<rparr>]"
  by (simp add: c4_store_def c4_calls_def co_strength_def read_defs eval_defs)

text \<open>
  Claim C1, at an input where the code departs from it. User \<open>u\<close> bought \<open>X\<close> and
  viewed \<open>P\<close>; a call with \<^verbatim>\<open>exclude_purchased=False\<close> cached a list that holds
  \<open>X\<close>. The next call, with \<^verbatim>\<open>exclude_purchased=True\<close>, returns the cached list,
  with the purchased \<open>X\<close> in it.
\<close>

theorem purchased_product_served_from_cache:
  "r_sets c1_store ''purchased:u'' = [''X'']
   \<and> fst (get_personalized_recommendations ''u'' 10 True c1_store) =
       [\<lparr>product_id = ''X'', score = 1, reason = ''Similar to items you viewed''\<rparr>,
        \<lparr>product_id = ''P'', score = 1, reason = ''Similar to items you viewed''\<rparr>]"
  by (simp add: c1_store_def c1_calls_def read_defs eval_defs)

end
